theory Spec2Isabelle
  imports Main
begin

section \<open>The syntax trees walked by the checker\<close>

text \<open>
  The checker (checker.py) walks the tree that Python's \<^verbatim>\<open>ast.parse\<close> returns.
  The parser is a library facility; the tree is modelled with one constructor per node
  class that the checker tells apart, and one catch-all constructor holding the child
  nodes, in field order, for every other class (which \<^verbatim>\<open>NodeVisitor.generic_visit\<close>
  walks child by child). Fields that the checker never reads (operators, contexts,
  function arguments and decorators) are left out; \<^verbatim>\<open>lineno\<close> is kept where a
  message prints it.

  The trees are those of Python 3.8 and later, where every literal is a
  \<^verbatim>\<open>Constant\<close> node. The interpreter's recursion limit is not modelled, nor are
  exceptions of \<^verbatim>\<open>ast.parse\<close> other than \<^verbatim>\<open>SyntaxError\<close>.
\<close>

text \<open>The value of a literal; the checker reads only \<^verbatim>\<open>type(node.value).__name__\<close>.\<close>

datatype const =
    CInt int
  | CFloat
  | CStr string
  | CBool bool
  | CNone
  | CBytes string
  | CComplex
  | CEllipsis

datatype expr =
    Constant const
  | Name string nat
  | BinOp expr expr nat
  | Call expr "expr list" "expr list" nat
  | Attribute expr string
  | OtherExpr "expr list"

text \<open>
  \<open>Name id lineno\<close>; \<open>BinOp left right lineno\<close>; \<open>Call func args keywords lineno\<close>, where
  each keyword node is represented by its value expression (its only child node);
  \<open>Attribute value attr\<close>; \<open>OtherExpr children\<close> for tuples, lists, comparisons,
  subscripts, lambdas and every other expression class.

  \<open>Assign\<close> holds \<^verbatim>\<open>targets[0]\<close>, the remaining targets, the value and the line: the
  parser never builds an assignment without a target. \<open>For target iter body orelse\<close>.
  \<open>OtherStmt\<close> holds the children of any other statement class (while, return, class
  definitions, augmented assignment, ...), expressions and statements mixed.
\<close>

datatype stmt =
    Assign expr "expr list" expr nat
  | FunctionDef string "stmt list"
  | For expr expr "stmt list" "stmt list"
  | If expr "stmt list" "stmt list"
  | Expr expr
  | OtherStmt "child list"
and child =
    ExprChild expr
  | StmtChild stmt

section \<open>State and results\<close>

text \<open>
  \<open>symbol_table\<close> is the module-level dictionary; \<open>errors\<close> and \<open>warnings\<close> are the
  lists of the \<^verbatim>\<open>TypeChecker\<close> object.
\<close>

record checker_state =
  symbol_table :: "string \<rightharpoonup> string"
  errors :: "string list"
  warnings :: "string list"

text \<open>How a visit ends: it returns, or a \<^verbatim>\<open>TypeErrorException\<close> with a message leaves it.\<close>

datatype signal = Normal | Raise string

text \<open>How a run ends: with the returned text, or with the exception that left it.\<close>

datatype outcome = Returned string | Raised string

definition SUPPORTED_TYPES :: "string set" where
  "SUPPORTED_TYPES = {''int'', ''float'', ''str'', ''bool''}"

definition REGEX_FUNCTIONS :: "string set" where
  "REGEX_FUNCTIONS = {''match'', ''search'', ''fullmatch'', ''findall'', ''finditer''}"

fun type_name :: "const \<Rightarrow> string" where
  "type_name (CInt i) = ''int''"
| "type_name CFloat = ''float''"
| "type_name (CStr s) = ''str''"
| "type_name (CBool b) = ''bool''"
| "type_name CNone = ''NoneType''"
| "type_name (CBytes b) = ''bytes''"
| "type_name CComplex = ''complex''"
| "type_name CEllipsis = ''ellipsis''"

section \<open>Message texts\<close>

definition digit_char :: "nat \<Rightarrow> char" where
  "digit_char d = ''0123456789'' ! d"

function str_nat :: "nat \<Rightarrow> string" where
  "str_nat n = (if n < 10 then [digit_char n] else str_nat (n div 10) @ [digit_char (n mod 10)])"
  by pat_completeness auto
termination
  by (relation "measure id") auto

declare str_nat.simps [simp del]

definition quoted :: "string \<Rightarrow> string" where
  "quoted s = [CHR 0x27] @ s @ [CHR 0x27]"

definition undefined_message :: "string \<Rightarrow> nat \<Rightarrow> string" where
  "undefined_message x ln = ''Undefined variable '' @ quoted x @ '' at line '' @ str_nat ln"

definition mismatch_message :: "nat \<Rightarrow> string" where
  "mismatch_message ln = ''Type Mismatch at line '' @ str_nat ln"

definition rebind_message :: "string \<Rightarrow> string \<Rightarrow> string \<Rightarrow> nat \<Rightarrow> string" where
  "rebind_message x old new ln =
     ''Type Error: Variable '' @ quoted x @ '' was '' @ quoted old @ '', now '' @ quoted new
       @ '' at line '' @ str_nat ln"

definition pattern_message :: "nat \<Rightarrow> string" where
  "pattern_message ln =
     ''Type Error: regex pattern argument must be '' @ quoted ''str'' @ '' at line '' @ str_nat ln"

definition subject_message :: "nat \<Rightarrow> string" where
  "subject_message ln =
     ''Type Error: regex match argument must be '' @ quoted ''str'' @ '' at line '' @ str_nat ln"

definition arity_message :: "string \<Rightarrow> nat \<Rightarrow> string" where
  "arity_message f ln =
     ''Type Error: regex function '' @ quoted f @ '' expects at least 2 arguments at line ''
       @ str_nat ln"

fun join_lines :: "string list \<Rightarrow> string" where
  "join_lines [] = []"
| "join_lines [l] = l"
| "join_lines (l # ls) = l @ [CHR 0x0A] @ join_lines ls"

section \<open>Type inference\<close>

text \<open>
  \<^verbatim>\<open>infer_type\<close> with \<^verbatim>\<open>visit_BinOp\<close>, which it calls for a binary operation. Both only
  read the symbol table. \<open>Inl\<close> is the message of the \<^verbatim>\<open>TypeErrorException\<close> raised,
  \<open>Inr\<close> the type name returned.
\<close>

fun infer_type :: "(string \<rightharpoonup> string) \<Rightarrow> expr \<Rightarrow> string + string" where
  "infer_type st (Constant c) =
     (if type_name c \<in> SUPPORTED_TYPES then Inr (type_name c) else Inr ''unknown'')"
| "infer_type st (Name x ln) =
     (case st x of Some t \<Rightarrow> Inr t | None \<Rightarrow> Inl (undefined_message x ln))"
| "infer_type st (BinOp l r ln) =
     (case infer_type st l of
        Inl e \<Rightarrow> Inl e
      | Inr left_type \<Rightarrow>
          (case infer_type st r of
             Inl e \<Rightarrow> Inl e
           | Inr right_type \<Rightarrow>
               if left_type \<noteq> right_type then Inl (mismatch_message ln) else Inr left_type))"
| "infer_type st (Call f args kws ln) =
     (case f of
        Name x lx \<Rightarrow> if x \<in> SUPPORTED_TYPES then Inr x else Inr ''unknown''
      | _ \<Rightarrow> Inr ''unknown'')"
| "infer_type st (Attribute v a) = Inr ''unknown''"
| "infer_type st (OtherExpr cs) = Inr ''unknown''"

section \<open>The visitor\<close>

definition add_error :: "string \<Rightarrow> checker_state \<Rightarrow> checker_state" where
  "add_error m s = s\<lparr>errors := errors s @ [m]\<rparr>"

text \<open>
  The first part of \<^verbatim>\<open>visit_Call\<close>, before its \<^verbatim>\<open>generic_visit\<close>: the check of a call
  \<^verbatim>\<open>re.match(...)\<close>, \<^verbatim>\<open>re.search(...)\<close>, ... The two calls of \<^verbatim>\<open>infer_type\<close> stand
  outside any handler, so their exception leaves the visit.
\<close>

definition regex_check :: "expr \<Rightarrow> expr list \<Rightarrow> nat \<Rightarrow> checker_state \<Rightarrow> signal \<times> checker_state" where
  "regex_check f args ln s =
     (case f of
        Attribute v attr \<Rightarrow>
          (case v of
             Name m lm \<Rightarrow>
               if m = ''re'' \<and> attr \<in> REGEX_FUNCTIONS then
                 if 2 \<le> length args then
                   (case infer_type (symbol_table s) (args ! 0) of
                      Inl e \<Rightarrow> (Raise e, s)
                    | Inr pattern_type \<Rightarrow>
                        (case infer_type (symbol_table s) (args ! 1) of
                           Inl e \<Rightarrow> (Raise e, s)
                         | Inr string_type \<Rightarrow>
                             (let s1 = (if pattern_type \<noteq> ''str''
                                        then add_error (pattern_message ln) s else s);
                                  s2 = (if string_type \<noteq> ''str''
                                        then add_error (subject_message ln) s1 else s1)
                              in (Normal, s2))))
                 else (Normal, add_error (arity_message attr ln) s)
               else (Normal, s)
           | _ \<Rightarrow> (Normal, s))
      | _ \<Rightarrow> (Normal, s))"

text \<open>
  \<^verbatim>\<open>NodeVisitor.visit\<close> on an expression: \<^verbatim>\<open>visit_BinOp\<close> and \<^verbatim>\<open>visit_Call\<close> where the
  class has them, \<^verbatim>\<open>generic_visit\<close> (the children, in field order) otherwise. A raised
  exception ends the walk of the remaining children.
\<close>

fun visit_expr :: "expr \<Rightarrow> checker_state \<Rightarrow> signal \<times> checker_state"
  and visit_exprs :: "expr list \<Rightarrow> checker_state \<Rightarrow> signal \<times> checker_state" where
  "visit_expr (Constant c) s = (Normal, s)"
| "visit_expr (Name x ln) s = (Normal, s)"
| "visit_expr (BinOp l r ln) s =
     (case infer_type (symbol_table s) (BinOp l r ln) of
        Inl e \<Rightarrow> (Raise e, s)
      | Inr t \<Rightarrow> (Normal, s))"
| "visit_expr (Call f args kws ln) s =
     (case regex_check f args ln s of
        (Raise e, s') \<Rightarrow> (Raise e, s')
      | (Normal, s') \<Rightarrow> visit_exprs (f # args @ kws) s')"
| "visit_expr (Attribute v a) s = visit_expr v s"
| "visit_expr (OtherExpr cs) s = visit_exprs cs s"
| "visit_exprs [] s = (Normal, s)"
| "visit_exprs (e # es) s =
     (case visit_expr e s of
        (Raise m, s') \<Rightarrow> (Raise m, s')
      | (Normal, s') \<Rightarrow> visit_exprs es s')"

text \<open>
  The body of \<^verbatim>\<open>visit_Assign\<close> for a target that is a plain name, up to its
  \<^verbatim>\<open>generic_visit\<close>: the handler turns the exception of \<^verbatim>\<open>infer_type\<close> into a
  diagnostic; a bound name keeps its type and a different new type is reported; an
  unbound name is bound.
\<close>

definition assign_name :: "string \<Rightarrow> expr \<Rightarrow> nat \<Rightarrow> checker_state \<Rightarrow> checker_state" where
  "assign_name var_name v ln s =
     (case infer_type (symbol_table s) v of
        Inr value_type \<Rightarrow>
          (case symbol_table s var_name of
             Some old \<Rightarrow>
               if old \<noteq> value_type
               then add_error (rebind_message var_name old value_type ln) s else s
           | None \<Rightarrow> s\<lparr>symbol_table := (symbol_table s)(var_name \<mapsto> value_type)\<rparr>)
      | Inl e \<Rightarrow> add_error e s)"

text \<open>
  \<^verbatim>\<open>NodeVisitor.visit\<close> on a statement. \<^verbatim>\<open>visit_Assign\<close> ends with \<^verbatim>\<open>generic_visit\<close>,
  which visits the targets and then the value, outside the handler.
  \<^verbatim>\<open>visit_FunctionDef\<close> walks the body only, \<^verbatim>\<open>visit_For\<close> the iterable and the body,
  \<^verbatim>\<open>visit_If\<close> the test and both branches.
\<close>

fun visit_stmt :: "stmt \<Rightarrow> checker_state \<Rightarrow> signal \<times> checker_state"
  and visit_stmts :: "stmt list \<Rightarrow> checker_state \<Rightarrow> signal \<times> checker_state"
  and visit_child :: "child \<Rightarrow> checker_state \<Rightarrow> signal \<times> checker_state"
  and visit_children :: "child list \<Rightarrow> checker_state \<Rightarrow> signal \<times> checker_state" where
  "visit_stmt (Assign t ts v ln) s =
     visit_exprs (t # ts @ [v])
       (case t of Name var_name lx \<Rightarrow> assign_name var_name v ln s | _ \<Rightarrow> s)"
| "visit_stmt (FunctionDef name body) s = visit_stmts body s"
| "visit_stmt (For target iter body orelse) s =
     (case visit_expr iter s of
        (Raise m, s') \<Rightarrow> (Raise m, s')
      | (Normal, s') \<Rightarrow> visit_stmts body s')"
| "visit_stmt (If test body orelse) s =
     (case visit_expr test s of
        (Raise m, s') \<Rightarrow> (Raise m, s')
      | (Normal, s') \<Rightarrow>
          (case visit_stmts body s' of
             (Raise m, s'') \<Rightarrow> (Raise m, s'')
           | (Normal, s'') \<Rightarrow> visit_stmts orelse s''))"
| "visit_stmt (Expr e) s = visit_expr e s"
| "visit_stmt (OtherStmt cs) s = visit_children cs s"
| "visit_stmts [] s = (Normal, s)"
| "visit_stmts (x # xs) s =
     (case visit_stmt x s of
        (Raise m, s') \<Rightarrow> (Raise m, s')
      | (Normal, s') \<Rightarrow> visit_stmts xs s')"
| "visit_child (ExprChild e) s = visit_expr e s"
| "visit_child (StmtChild x) s = visit_stmt x s"
| "visit_children [] s = (Normal, s)"
| "visit_children (c # cs) s =
     (case visit_child c s of
        (Raise m, s') \<Rightarrow> (Raise m, s')
      | (Normal, s') \<Rightarrow> visit_children cs s')"

section \<open>A checking run\<close>

text \<open>
  \<^verbatim>\<open>checker.visit(tree)\<close> on the module node, whose children are the statements of its
  body, with the state a run starts from: the table just reset and a new checker.
\<close>

definition fresh_state :: checker_state where
  "fresh_state = \<lparr>symbol_table = Map.empty, errors = [], warnings = []\<rparr>"

definition visit_Module :: "stmt list \<Rightarrow> signal \<times> checker_state" where
  "visit_Module body = visit_stmts body fresh_state"

text \<open>
  \<^verbatim>\<open>run_python_checker\<close>. The parser is a parameter: \<open>Inl\<close> is the text of its
  \<^verbatim>\<open>SyntaxError\<close>, \<open>Inr\<close> the body of the module it returns. The third argument is the
  global table as the previous run left it; the second component of the result is the
  global table after the run. The only handler is for \<^verbatim>\<open>SyntaxError\<close>, so a
  \<^verbatim>\<open>TypeErrorException\<close> that leaves the walk leaves the run.
\<close>

definition result_text :: "checker_state \<Rightarrow> string" where
  "result_text c =
     (if errors c \<noteq> [] then join_lines (errors c)
      else ''No type errors found.'' @
        (if warnings c \<noteq> []
         then [CHR 0x0A, CHR 0x0A] @ ''Warnings:'' @ [CHR 0x0A] @ join_lines (warnings c)
         else []))"

definition run_python_checker ::
  "(string \<Rightarrow> string + stmt list) \<Rightarrow> string \<Rightarrow> (string \<rightharpoonup> string)
     \<Rightarrow> outcome \<times> (string \<rightharpoonup> string)" where
  "run_python_checker parse code previous_table =
     (case parse code of
        Inl e \<Rightarrow> (Returned (''Syntax Error: '' @ e), Map.empty)
      | Inr body \<Rightarrow>
          (case visit_Module body of
             (Raise m, c) \<Rightarrow> (Raised m, symbol_table c)
           | (Normal, c) \<Rightarrow> (Returned (result_text c), symbol_table c)))"

section \<open>Notions used to state the properties\<close>

text \<open>\<^verbatim>\<open>isinstance(node, ast.Name)\<close>.\<close>

fun is_Name :: "expr \<Rightarrow> bool" where
  "is_Name (Name x ln) = True"
| "is_Name e = False"

text \<open>The diagnostics of the regex rule all start alike, as do those of a re-binding.\<close>

definition is_regex_diagnostic :: "string \<Rightarrow> bool" where
  "is_regex_diagnostic d = (take 17 d = ''Type Error: regex'')"

definition is_rebind_diagnostic :: "string \<Rightarrow> bool" where
  "is_rebind_diagnostic d = (take 20 d = ''Type Error: Variable'')"

text \<open>
  What the walk of an expression can do to the state: nothing to the table or the
  warnings, and to the diagnostics only append some of the regex rule.
\<close>

definition regex_diagnostics_added :: "checker_state \<Rightarrow> checker_state \<Rightarrow> bool" where
  "regex_diagnostics_added s s' =
     (symbol_table s' = symbol_table s \<and> warnings s' = warnings s \<and>
      (\<exists>ds. errors s' = errors s @ ds \<and> list_all is_regex_diagnostic ds))"

text \<open>The type names that inference can return.\<close>

definition INFERRED_TYPES :: "string set" where
  "INFERRED_TYPES = SUPPORTED_TYPES \<union> {''unknown''}"

definition table_ok :: "(string \<rightharpoonup> string) \<Rightarrow> bool" where
  "table_ok st = (ran st \<subseteq> INFERRED_TYPES)"

text \<open>Parsers to run the checker with: one that returns a given tree, one that fails.\<close>

definition accepting :: "stmt list \<Rightarrow> string \<Rightarrow> string + stmt list" where
  "accepting body code = Inr body"

definition rejecting :: "string \<Rightarrow> string \<Rightarrow> string + stmt list" where
  "rejecting e code = Inl e"

section \<open>Expressions are walked without touching the table\<close>

lemma regex_diagnostics_added_refl: "regex_diagnostics_added s s"
  by (simp add: regex_diagnostics_added_def)

lemma regex_diagnostics_added_trans:
  "regex_diagnostics_added s s' \<Longrightarrow> regex_diagnostics_added s' s''
     \<Longrightarrow> regex_diagnostics_added s s''"
  by (auto simp: regex_diagnostics_added_def)

lemma regex_diagnostics_added_error:
  "is_regex_diagnostic m \<Longrightarrow> regex_diagnostics_added s (add_error m s)"
  by (simp add: regex_diagnostics_added_def add_error_def)

lemma regex_messages:
  "is_regex_diagnostic (pattern_message ln)"
  "is_regex_diagnostic (subject_message ln)"
  "is_regex_diagnostic (arity_message f ln)"
  by (simp_all add: is_regex_diagnostic_def pattern_message_def subject_message_def
      arity_message_def)

lemma regex_not_rebind: "is_regex_diagnostic d \<Longrightarrow> \<not> is_rebind_diagnostic d"
proof
  assume r: "is_regex_diagnostic d" and v: "is_rebind_diagnostic d"
  have "take 13 (take 17 d) = take 13 (take 20 d)" by simp
  with r v show False
    by (simp only: is_regex_diagnostic_def is_rebind_diagnostic_def) simp
qed

lemma rebind_message_is_rebind: "is_rebind_diagnostic (rebind_message x old new ln)"
  by (simp add: is_rebind_diagnostic_def rebind_message_def)

lemma regex_check_added:
  "regex_check f args ln s = (sig, s') \<Longrightarrow> regex_diagnostics_added s s'"
  unfolding regex_check_def
  by (auto split: expr.splits if_splits sum.splits simp: Let_def
      intro: regex_diagnostics_added_refl regex_diagnostics_added_error regex_messages
        regex_diagnostics_added_trans
          [OF regex_diagnostics_added_error regex_diagnostics_added_error])

lemma visit_expr_added:
  "visit_expr e s = (sig, s') \<Longrightarrow> regex_diagnostics_added s s'"
  "visit_exprs es s = (sig, s') \<Longrightarrow> regex_diagnostics_added s s'"
proof (induction e s and es s arbitrary: sig s' and sig s' rule: visit_expr_visit_exprs.induct)
  case (4 f args kws ln s)
  then show ?case
    by (auto split: prod.splits signal.splits
        intro: regex_check_added regex_diagnostics_added_trans)
next
  case (8 e es s)
  then show ?case
    by (auto split: prod.splits signal.splits intro: regex_diagnostics_added_trans)
qed (auto split: sum.splits simp: regex_diagnostics_added_refl)

lemma visit_expr_table:
  "visit_expr e s = (sig, s') \<Longrightarrow> symbol_table s' = symbol_table s"
  "visit_exprs es s = (sig, s') \<Longrightarrow> symbol_table s' = symbol_table s"
  using visit_expr_added [of _ s sig s']
  by (simp_all add: regex_diagnostics_added_def)

section \<open>What every statement visit preserves\<close>

text \<open>
  The table changes only in the assignment to a plain name, so a property of the table
  that this step keeps is kept by the walk of any statement, also when the walk is left
  by an exception.
\<close>

lemma visit_stmt_preserves:
  assumes step: "\<And>x v ln s. P (symbol_table s) \<Longrightarrow> P (symbol_table (assign_name x v ln s))"
  shows "visit_stmt x s = (sig, s') \<Longrightarrow> P (symbol_table s) \<Longrightarrow> P (symbol_table s')"
    and "visit_stmts xs s = (sig, s') \<Longrightarrow> P (symbol_table s) \<Longrightarrow> P (symbol_table s')"
    and "visit_child c s = (sig, s') \<Longrightarrow> P (symbol_table s) \<Longrightarrow> P (symbol_table s')"
    and "visit_children cs s = (sig, s') \<Longrightarrow> P (symbol_table s) \<Longrightarrow> P (symbol_table s')"
proof (induction x s and xs s and c s and cs s
    arbitrary: sig s' and sig s' and sig s' and sig s'
    rule: visit_stmt_visit_stmts_visit_child_visit_children.induct)
  case (1 t ts v ln s)
  from 1 have "symbol_table s' =
      symbol_table (case t of Name var_name lx \<Rightarrow> assign_name var_name v ln s | _ \<Rightarrow> s)"
    by (simp del: visit_exprs.simps add: visit_expr_table(2))
  with 1(2) show ?case
    by (cases t) (simp_all add: step)
next
  case (3 target iter body orelse s)
  then show ?case
    by (auto split: prod.splits signal.splits dest: visit_expr_table(1))
next
  case (4 test body orelse s)
  then show ?case
    by (fastforce split: prod.splits signal.splits dest: visit_expr_table(1))
next
  case (5 e s)
  then show ?case by (simp add: visit_expr_table(1))
next
  case (8 x xs s)
  then show ?case
    by (fastforce split: prod.splits signal.splits)
next
  case (9 e s)
  then show ?case by (simp add: visit_expr_table(1))
next
  case (12 c cs s)
  then show ?case
    by (fastforce split: prod.splits signal.splits)
qed simp_all

lemma assign_name_keeps_binding:
  "symbol_table s x = Some t \<Longrightarrow> symbol_table (assign_name y v ln s) x = Some t"
  by (auto simp: assign_name_def add_error_def split: sum.splits option.splits)

lemma visit_stmts_keeps_binding:
  assumes "symbol_table s x = Some t"
  shows "symbol_table (snd (visit_stmts xs s)) x = Some t"
  using visit_stmt_preserves(2) [of "\<lambda>st. st x = Some t" xs s
      "fst (visit_stmts xs s)" "snd (visit_stmts xs s)"] assms
  by (simp add: assign_name_keeps_binding)

lemma infer_type_codomain:
  "table_ok st \<Longrightarrow> infer_type st e = Inr t \<Longrightarrow> t \<in> INFERRED_TYPES"
proof (induction st e arbitrary: t rule: infer_type.induct)
  case (1 st c)
  then show ?case by (auto simp: INFERRED_TYPES_def split: if_splits)
next
  case (2 st x ln)
  then show ?case by (auto simp: table_ok_def ran_def split: option.splits)
next
  case (3 st l r ln)
  then show ?case by (auto split: sum.splits if_splits)
next
  case (4 st f args kws ln)
  then show ?case by (auto simp: INFERRED_TYPES_def split: expr.splits if_splits)
qed (simp_all add: INFERRED_TYPES_def)

lemma assign_name_table_ok:
  "table_ok (symbol_table s) \<Longrightarrow> table_ok (symbol_table (assign_name x v ln s))"
proof (cases "infer_type (symbol_table s) v")
  case (Inl e)
  assume "table_ok (symbol_table s)"
  with Inl show ?thesis by (simp add: assign_name_def add_error_def)
next
  case (Inr t)
  assume ok: "table_ok (symbol_table s)"
  then have t: "t \<in> INFERRED_TYPES" using Inr by (rule infer_type_codomain)
  show ?thesis
  proof (cases "symbol_table s x")
    case None
    then have "ran ((symbol_table s)(x \<mapsto> t)) = insert t (ran (symbol_table s))" by simp
    with ok t Inr None show ?thesis by (simp add: assign_name_def table_ok_def)
  next
    case (Some old)
    with ok Inr show ?thesis by (simp add: assign_name_def add_error_def)
  qed
qed

lemma str_nat_1: "str_nat (Suc 0) = ''1''" and str_nat_2: "str_nat 2 = ''2''"
  by (simp_all add: str_nat.simps digit_char_def)

lemmas message_defs = undefined_message_def mismatch_message_def rebind_message_def
  pattern_message_def subject_message_def arity_message_def quoted_def

lemmas run_defs = run_python_checker_def visit_Module_def fresh_state_def result_text_def
  accepting_def rejecting_def assign_name_def add_error_def regex_check_def
  SUPPORTED_TYPES_def REGEX_FUNCTIONS_def

section \<open>The run boundary\<close>

text \<open>
  Claim C8. When the source text does not parse, the run returns the text
  \<^verbatim>\<open>Syntax Error: \<close> followed by the parser's error text. No checker is created and
  no tree is walked, so there is no diagnostic, and the table is the empty one that the
  run installed before it called the parser.
\<close>

theorem syntax_failure_short_circuits:
  assumes "parse code = Inl e"
  shows "run_python_checker parse code previous_table
           = (Returned (''Syntax Error: '' @ e), Map.empty)"
  using assms by (simp add: run_python_checker_def)

text \<open>Claim C8, at a parser that rejects the text with the message \<open>bad\<close>.\<close>

theorem syntax_failure_short_circuits_witness:
  "rejecting ''bad'' ''(('' = Inl ''bad'' \<and>
   run_python_checker (rejecting ''bad'') ''(('' (symbol_table fresh_state)
     = (Returned ''Syntax Error: bad'', symbol_table fresh_state)"
proof -
  have h: "rejecting ''bad'' ''(('' = Inl ''bad''" by (simp add: rejecting_def)
  show ?thesis
    using h syntax_failure_short_circuits
      [of "rejecting ''bad''" "''((''" "''bad''" "symbol_table fresh_state"]
    by (simp add: fresh_state_def)
qed

text \<open>
  Claim C9. A run starts by replacing the global table with an empty one and by creating
  a new checker, so nothing of what an earlier run left is read: the result of a run, and
  the table it leaves, are the same whatever table it finds; in particular a second run
  on the same text, started on what the first run left, gives the result of the first.
\<close>

theorem runs_are_deterministic:
  "run_python_checker parse code table1 = run_python_checker parse code table2 \<and>
   fst (run_python_checker parse code (snd (run_python_checker parse code table1)))
     = fst (run_python_checker parse code table1)"
  by (simp add: run_python_checker_def)

text \<open>
  Claim C1 (not met by the code). Only \<^verbatim>\<open>visit_Assign\<close> has a handler for
  \<^verbatim>\<open>TypeErrorException\<close>, and only around its own call of \<^verbatim>\<open>infer_type\<close>;
  \<^verbatim>\<open>run_python_checker\<close> handles \<^verbatim>\<open>SyntaxError\<close> alone. A binary operation or a
  regex call that is reached by the walk itself raises outside every handler, and the
  exception leaves the run. Three texts that parse: \<^verbatim>\<open>x + 1\<close> (an undefined name),
  \<^verbatim>\<open>1 + "s"\<close> (a mismatch) and \<^verbatim>\<open>re.match(x, "s")\<close> (an argument of a regex call).
\<close>

theorem violations_leave_the_run:
  "fst (run_python_checker
      (accepting [Expr (BinOp (Name ''x'' 1) (Constant (CInt 1)) 1)]) code previous_table)
     = Raised ''Undefined variable 'x' at line 1'' \<and>
   fst (run_python_checker
      (accepting [Expr (BinOp (Constant (CInt 1)) (Constant (CStr ''s'')) 1)]) code previous_table)
     = Raised ''Type Mismatch at line 1'' \<and>
   fst (run_python_checker
      (accepting [Expr (Call (Attribute (Name ''re'' 1) ''match'')
         [Name ''x'' 1, Constant (CStr ''s'')] [] 1)]) code previous_table)
     = Raised ''Undefined variable 'x' at line 1''"
  by (simp add: run_defs message_defs str_nat_1)

text \<open>
  Claim C2 (not met by the code). For \<^verbatim>\<open>a = 1 + "s"\<close> the handler of
  \<^verbatim>\<open>visit_Assign\<close> records the one diagnostic and \<open>a\<close> stays unbound, but the
  \<^verbatim>\<open>generic_visit\<close> that ends \<^verbatim>\<open>visit_Assign\<close> then visits the binary operation
  again, outside the handler: the run ends with the exception, not with a result.
\<close>

theorem mismatch_assignment_raises:
  "visit_Module [Assign (Name ''a'' 1) []
       (BinOp (Constant (CInt 1)) (Constant (CStr ''s'')) 1) 1]
     = (Raise ''Type Mismatch at line 1'', add_error ''Type Mismatch at line 1'' fresh_state) \<and>
   symbol_table (add_error ''Type Mismatch at line 1'' fresh_state) ''a'' = None \<and>
   errors (add_error ''Type Mismatch at line 1'' fresh_state) = [''Type Mismatch at line 1''] \<and>
   fst (run_python_checker
      (accepting [Assign (Name ''a'' 1) []
         (BinOp (Constant (CInt 1)) (Constant (CStr ''s'')) 1) 1]) code previous_table)
     = Raised ''Type Mismatch at line 1''"
  by (simp add: run_defs message_defs str_nat_1)

section \<open>Assignments\<close>

text \<open>
  Claim C6. For the single assignment \<^verbatim>\<open>y = x\<close> with \<open>x\<close> unbound, the handler of
  \<^verbatim>\<open>visit_Assign\<close> records the one diagnostic \<^verbatim>\<open>Undefined variable 'x' at line L\<close>,
  nothing is bound, and the walk of the two names raises nothing: the run returns that
  diagnostic as its text and leaves an empty table.
\<close>

theorem undefined_name_assignment:
  "visit_Module [Assign (Name y ly) [] (Name x lx) ln]
     = (Normal, add_error (undefined_message x lx) fresh_state) \<and>
   errors (snd (visit_Module [Assign (Name y ly) [] (Name x lx) ln]))
     = [undefined_message x lx] \<and>
   symbol_table (snd (visit_Module [Assign (Name y ly) [] (Name x lx) ln])) y = None \<and>
   symbol_table (snd (visit_Module [Assign (Name y ly) [] (Name x lx) ln])) x = None \<and>
   run_python_checker (accepting [Assign (Name y ly) [] (Name x lx) ln]) code previous_table
     = (Returned (undefined_message x lx), Map.empty) \<and>
   undefined_message ''x'' 1 = ''Undefined variable 'x' at line 1''"
  by (simp add: run_defs message_defs str_nat_1)

text \<open>
  Claim C5. When the first target is a name bound to \<open>t1\<close> and the value is inferred as
  a different \<open>t2\<close>, the visit of the assignment appends the diagnostic
  \<^verbatim>\<open>Type Error: Variable 'x' was 't1', now 't2' at line L\<close> once; whatever follows it
  comes from regex calls inside the targets and the value, and is no diagnostic of that
  form. The table is the same after the visit, and whatever statements are visited
  later, \<open>x\<close> keeps the type \<open>t1\<close>.
\<close>

theorem rebinding_reported_once_first_type_kept:
  assumes "symbol_table s x = Some t1"
    and "infer_type (symbol_table s) v = Inr t2"
    and "t1 \<noteq> t2"
    and "visit_stmt (Assign (Name x lx) ts v ln) s = (sig, s')"
  shows "(\<exists>ds. errors s' = errors s @ [rebind_message x t1 t2 ln] @ ds \<and>
            list_all is_regex_diagnostic ds \<and> filter is_rebind_diagnostic ds = []) \<and>
         is_rebind_diagnostic (rebind_message x t1 t2 ln) \<and>
         symbol_table s' = symbol_table s \<and>
         (\<forall>later. symbol_table (snd (visit_stmts later s')) x = Some t1)"
proof -
  let ?s1 = "add_error (rebind_message x t1 t2 ln) s"
  from assms(1-3) have a: "assign_name x v ln s = ?s1"
    by (simp add: assign_name_def)
  with assms(4) have w: "visit_exprs (Name x lx # ts @ [v]) ?s1 = (sig, s')"
    by (simp del: visit_exprs.simps)
  then have r: "regex_diagnostics_added ?s1 s'" by (rule visit_expr_added(2))
  then obtain ds where ds: "errors s' = errors ?s1 @ ds" "list_all is_regex_diagnostic ds"
    by (auto simp: regex_diagnostics_added_def)
  from ds(2) have "filter is_rebind_diagnostic ds = []"
    by (auto simp: list_all_iff filter_empty_conv dest: regex_not_rebind)
  with ds have 1: "\<exists>ds. errors s' = errors s @ [rebind_message x t1 t2 ln] @ ds \<and>
      list_all is_regex_diagnostic ds \<and> filter is_rebind_diagnostic ds = []"
    by (simp add: add_error_def)
  from r have 2: "symbol_table s' = symbol_table s"
    by (simp add: regex_diagnostics_added_def add_error_def)
  with assms(1) have "symbol_table s' x = Some t1" by simp
  then have 3: "\<forall>later. symbol_table (snd (visit_stmts later s')) x = Some t1"
    by (simp add: visit_stmts_keeps_binding)
  from 1 2 3 show ?thesis by (simp add: rebind_message_is_rebind)
qed

text \<open>
  Claim C5, at \<^verbatim>\<open>x = 1\<close> on line 2 with \<open>x\<close> bound to \<^verbatim>\<open>str\<close>: the one diagnostic, and
  \<open>x\<close> still a \<^verbatim>\<open>str\<close> after a further \<^verbatim>\<open>x = 2.0\<close>.
\<close>

theorem rebinding_reported_once_first_type_kept_witness:
  "symbol_table (fresh_state\<lparr>symbol_table := [''x'' \<mapsto> ''str'']\<rparr>) ''x'' = Some ''str'' \<and>
   infer_type (symbol_table (fresh_state\<lparr>symbol_table := [''x'' \<mapsto> ''str'']\<rparr>))
     (Constant (CInt 1)) = Inr ''int'' \<and>
   ''str'' \<noteq> ''int'' \<and>
   visit_stmt (Assign (Name ''x'' 2) [] (Constant (CInt 1)) 2)
       (fresh_state\<lparr>symbol_table := [''x'' \<mapsto> ''str'']\<rparr>)
     = (Normal, fresh_state\<lparr>symbol_table := [''x'' \<mapsto> ''str''],
          errors := [''Type Error: Variable 'x' was 'str', now 'int' at line 2'']\<rparr>) \<and>
   symbol_table (snd (visit_stmts [Assign (Name ''x'' 3) [] (Constant CFloat) 3]
       (fresh_state\<lparr>symbol_table := [''x'' \<mapsto> ''str''],
          errors := [''Type Error: Variable 'x' was 'str', now 'int' at line 2'']\<rparr>))) ''x''
     = Some ''str''"
proof -
  let ?s = "fresh_state\<lparr>symbol_table := [''x'' \<mapsto> ''str'']\<rparr>"
  let ?s' = "fresh_state\<lparr>symbol_table := [''x'' \<mapsto> ''str''],
          errors := [''Type Error: Variable 'x' was 'str', now 'int' at line 2'']\<rparr>"
  have h1: "symbol_table ?s ''x'' = Some ''str''" by (simp add: fresh_state_def)
  have h2: "infer_type (symbol_table ?s) (Constant (CInt 1)) = Inr ''int''"
    by (simp add: SUPPORTED_TYPES_def)
  have h3: "''str'' \<noteq> ''int''" by simp
  have h4: "visit_stmt (Assign (Name ''x'' 2) [] (Constant (CInt 1)) 2) ?s = (Normal, ?s')"
    by (simp add: run_defs message_defs str_nat_2)
  from rebinding_reported_once_first_type_kept [OF h1 h2 h3 h4]
  have "symbol_table (snd (visit_stmts [Assign (Name ''x'' 3) [] (Constant CFloat) 3] ?s')) ''x''
      = Some ''str''"
    by blast
  with h1 h2 h3 h4 show ?thesis by blast
qed

text \<open>
  Claim C10. The table holds only the type names \<^verbatim>\<open>int\<close>, \<^verbatim>\<open>float\<close>, \<^verbatim>\<open>str\<close>,
  \<^verbatim>\<open>bool\<close> and \<^verbatim>\<open>unknown\<close>: the table a run starts with does; the one step that
  writes the table, the assignment to a plain name, keeps it so, and with it the visit of
  any statement or list of statements, whether it returns or raises; so the table that a
  run leaves does.
\<close>

theorem symbol_table_holds_inferred_types_only:
  "INFERRED_TYPES = {''int'', ''float'', ''str'', ''bool'', ''unknown''} \<and>
   table_ok (symbol_table fresh_state) \<and>
   (table_ok (symbol_table s) \<longrightarrow>
      table_ok (symbol_table (assign_name x v ln s)) \<and>
      table_ok (symbol_table (snd (visit_stmt stm s))) \<and>
      table_ok (symbol_table (snd (visit_stmts stms s)))) \<and>
   table_ok (snd (run_python_checker parse code previous_table))"
proof -
  have types: "INFERRED_TYPES = {''int'', ''float'', ''str'', ''bool'', ''unknown''}"
    by (auto simp: INFERRED_TYPES_def SUPPORTED_TYPES_def)
  have fresh: "table_ok (symbol_table fresh_state)"
    by (simp add: table_ok_def fresh_state_def)
  have stmt: "table_ok (symbol_table (snd (visit_stmt stm s)))" if "table_ok (symbol_table s)"
    using visit_stmt_preserves(1) [of table_ok stm s "fst (visit_stmt stm s)"
        "snd (visit_stmt stm s)"] that
    by (simp add: assign_name_table_ok)
  have stmts: "table_ok (symbol_table (snd (visit_stmts xs s0)))"
    if "table_ok (symbol_table s0)" for xs s0
    using visit_stmt_preserves(2) [of table_ok xs s0 "fst (visit_stmts xs s0)"
        "snd (visit_stmts xs s0)"] that
    by (simp add: assign_name_table_ok)
  have run: "table_ok (snd (run_python_checker parse code previous_table))"
  proof (cases "parse code")
    case (Inl e)
    then show ?thesis by (simp add: run_python_checker_def table_ok_def)
  next
    case (Inr body)
    have "table_ok (symbol_table (snd (visit_stmts body fresh_state)))"
      using fresh by (rule stmts)
    with Inr show ?thesis
      by (cases "visit_stmts body fresh_state")
        (auto simp: run_python_checker_def visit_Module_def split: signal.splits)
  qed
  from types fresh stmt stmts run show ?thesis
    by (simp add: assign_name_table_ok)
qed

text \<open>Claim C10, at \<^verbatim>\<open>x = 1\<close> visited in the state a run starts from.\<close>

theorem symbol_table_holds_inferred_types_only_witness:
  "table_ok (symbol_table fresh_state) \<and>
   table_ok (symbol_table (snd (visit_stmt (Assign (Name ''x'' 1) [] (Constant (CInt 1)) 1)
     fresh_state))) \<and>
   symbol_table (snd (visit_stmt (Assign (Name ''x'' 1) [] (Constant (CInt 1)) 1) fresh_state))
     ''x'' = Some ''int''"
  using symbol_table_holds_inferred_types_only
    [of fresh_state "''x''" "Constant (CInt 1)" 1
      "Assign (Name ''x'' 1) [] (Constant (CInt 1)) 1" "[]"]
  by (simp add: run_defs)

text \<open>
  Claim C4, as the code has it. \<^verbatim>\<open>visit_Assign\<close> looks at \<^verbatim>\<open>targets[0]\<close> only. When the
  first target is not a plain name (a tuple, an attribute, a subscript) nothing is
  inferred and nothing is bound: the targets and the value are walked as expressions,
  which leaves the table as it is and can append diagnostics of the regex rule only.
  When the first target is a plain name, further targets change nothing: the statement
  is checked as the assignment of the value to that first name, and leaves the table
  that the single-target assignment leaves.
\<close>

theorem assignment_checked_by_first_target:
  "(\<not> is_Name t \<longrightarrow>
      visit_stmt (Assign t ts v ln) s = visit_exprs (t # ts @ [v]) s \<and>
      regex_diagnostics_added s (snd (visit_stmt (Assign t ts v ln) s))) \<and>
   visit_stmt (Assign (Name x lx) ts v ln) s
     = visit_exprs (Name x lx # ts @ [v]) (assign_name x v ln s) \<and>
   symbol_table (snd (visit_stmt (Assign (Name x lx) ts v ln) s))
     = symbol_table (snd (visit_stmt (Assign (Name x lx) [] v ln) s))"
proof -
  have a: "visit_stmt (Assign t ts v ln) s = visit_exprs (t # ts @ [v]) s" if "\<not> is_Name t"
    using that by (cases t) (simp_all del: visit_exprs.simps)
  have b: "regex_diagnostics_added s (snd (visit_exprs (t # ts @ [v]) s))"
    using visit_expr_added(2) [of "t # ts @ [v]" s "fst (visit_exprs (t # ts @ [v]) s)"
        "snd (visit_exprs (t # ts @ [v]) s)"]
    by (simp del: visit_exprs.simps)
  have c: "symbol_table (snd (visit_exprs es s0)) = symbol_table s0" for es s0
    using visit_expr_table(2) [of es s0 "fst (visit_exprs es s0)" "snd (visit_exprs es s0)"]
    by simp
  from a b c show ?thesis
    by (simp del: visit_exprs.simps)
qed

text \<open>
  Claim C4 as amended, at \<^verbatim>\<open>a, b = 1, 2\<close>: the first target is a tuple, and the visit
  returns the state it was given.
\<close>

theorem assignment_checked_by_first_target_witness:
  "\<not> is_Name (OtherExpr [Name ''a'' 1, Name ''b'' 1]) \<and>
   visit_stmt (Assign (OtherExpr [Name ''a'' 1, Name ''b'' 1]) []
       (OtherExpr [Constant (CInt 1), Constant (CInt 2)]) 1) fresh_state
     = (Normal, fresh_state) \<and>
   regex_diagnostics_added fresh_state
     (snd (visit_stmt (Assign (OtherExpr [Name ''a'' 1, Name ''b'' 1]) []
       (OtherExpr [Constant (CInt 1), Constant (CInt 2)]) 1) fresh_state))"
  using assignment_checked_by_first_target
    [of "OtherExpr [Name ''a'' 1, Name ''b'' 1]" "[]"
      "OtherExpr [Constant (CInt 1), Constant (CInt 2)]" 1 fresh_state]
  by simp

text \<open>
  Claim C4 as stated fails on a multi-target assignment whose first target is a plain
  name: \<^verbatim>\<open>a = b = 1\<close> binds \<open>a\<close>, and \<^verbatim>\<open>a = b = x\<close> with \<open>x\<close> unbound appends a
  diagnostic.
\<close>

theorem multi_target_assignment_counterexample:
  "visit_stmt (Assign (Name ''a'' 1) [Name ''b'' 1] (Constant (CInt 1)) 1) fresh_state
     = (Normal, fresh_state\<lparr>symbol_table := [''a'' \<mapsto> ''int'']\<rparr>) \<and>
   visit_stmt (Assign (Name ''a'' 1) [Name ''b'' 1] (Name ''x'' 1) 1) fresh_state
     = (Normal, fresh_state\<lparr>errors := [''Undefined variable 'x' at line 1'']\<rparr>)"
  by (simp add: run_defs message_defs str_nat_1)

section \<open>The sentinel type\<close>

lemma visit_exprs_appended:
  assumes "visit_exprs es s = (sig, s')"
  shows "\<exists>ds. errors s' = errors s @ ds \<and> list_all is_regex_diagnostic ds \<and>
           filter is_rebind_diagnostic ds = []"
proof -
  from assms have "regex_diagnostics_added s s'" by (rule visit_expr_added(2))
  then obtain ds where ds: "errors s' = errors s @ ds" "list_all is_regex_diagnostic ds"
    by (auto simp: regex_diagnostics_added_def)
  from ds(2) have "filter is_rebind_diagnostic ds = []"
    by (auto simp: list_all_iff filter_empty_conv dest: regex_not_rebind)
  with ds show ?thesis by blast
qed

text \<open>
  Claim C3, as the code has it. \<^verbatim>\<open>unknown\<close> is a type name like the others and is
  compared by equality. The comparison passes when both types are \<^verbatim>\<open>unknown\<close>: the
  binary operation then has type \<^verbatim>\<open>unknown\<close>, and the re-binding appends no
  re-binding diagnostic: the visit is the walk of the targets and the value in the
  state as it was, and all that it appends are diagnostics of the regex rule from calls
  inside them. When exactly one of the two is \<^verbatim>\<open>unknown\<close> the types differ: the binary
  operation fails with \<^verbatim>\<open>Type Mismatch at line L\<close>, and the re-binding appends its
  diagnostic once, followed only by diagnostics of the regex rule.
\<close>

theorem unknown_is_compared_like_any_type:
  "(infer_type st l = Inr ''unknown'' \<and> infer_type st r = Inr ''unknown'' \<longrightarrow>
      infer_type st (BinOp l r ln) = Inr ''unknown'') \<and>
   (infer_type st l' = Inr t1 \<and> infer_type st r' = Inr t2 \<and> t1 \<noteq> t2 \<and>
    (t1 = ''unknown'' \<or> t2 = ''unknown'') \<longrightarrow>
      infer_type st (BinOp l' r' ln) = Inl (mismatch_message ln)) \<and>
   (symbol_table s x = Some ''unknown'' \<and> infer_type (symbol_table s) v = Inr ''unknown'' \<longrightarrow>
      visit_stmt (Assign (Name x lx) ts v ln) s = visit_exprs (Name x lx # ts @ [v]) s \<and>
      (\<exists>ds. errors (snd (visit_stmt (Assign (Name x lx) ts v ln) s)) = errors s @ ds \<and>
            list_all is_regex_diagnostic ds \<and> filter is_rebind_diagnostic ds = [])) \<and>
   (symbol_table s x = Some u1 \<and> infer_type (symbol_table s) v' = Inr u2 \<and> u1 \<noteq> u2 \<and>
    (u1 = ''unknown'' \<or> u2 = ''unknown'') \<longrightarrow>
      visit_stmt (Assign (Name x lx) ts v' ln) s
        = visit_exprs (Name x lx # ts @ [v']) (add_error (rebind_message x u1 u2 ln) s) \<and>
      (\<exists>ds. errors (snd (visit_stmt (Assign (Name x lx) ts v' ln) s))
              = errors s @ [rebind_message x u1 u2 ln] @ ds \<and>
            list_all is_regex_diagnostic ds \<and> filter is_rebind_diagnostic ds = []))"
proof -
  have walk: "\<exists>ds. errors (snd (visit_exprs es s0)) = errors s0 @ ds \<and>
      list_all is_regex_diagnostic ds \<and> filter is_rebind_diagnostic ds = []" for es s0
    by (rule visit_exprs_appended [of es s0 "fst (visit_exprs es s0)"]) simp
  have same: "visit_stmt (Assign (Name x lx) ts v ln) s = visit_exprs (Name x lx # ts @ [v]) s"
    if "symbol_table s x = Some ''unknown''" "infer_type (symbol_table s) v = Inr ''unknown''"
    using that by (simp add: assign_name_def del: visit_exprs.simps)
  have differ: "visit_stmt (Assign (Name x lx) ts v' ln) s
      = visit_exprs (Name x lx # ts @ [v']) (add_error (rebind_message x u1 u2 ln) s)"
    if "symbol_table s x = Some u1" "infer_type (symbol_table s) v' = Inr u2" "u1 \<noteq> u2"
    using that by (simp add: assign_name_def del: visit_exprs.simps)
  have c3: "visit_stmt (Assign (Name x lx) ts v ln) s = visit_exprs (Name x lx # ts @ [v]) s \<and>
      (\<exists>ds. errors (snd (visit_stmt (Assign (Name x lx) ts v ln) s)) = errors s @ ds \<and>
            list_all is_regex_diagnostic ds \<and> filter is_rebind_diagnostic ds = [])"
    if "symbol_table s x = Some ''unknown''" "infer_type (symbol_table s) v = Inr ''unknown''"
    using same [OF that] walk [of "Name x lx # ts @ [v]" s] by (simp del: visit_exprs.simps)
  have c4: "visit_stmt (Assign (Name x lx) ts v' ln) s
        = visit_exprs (Name x lx # ts @ [v']) (add_error (rebind_message x u1 u2 ln) s) \<and>
      (\<exists>ds. errors (snd (visit_stmt (Assign (Name x lx) ts v' ln) s))
              = errors s @ [rebind_message x u1 u2 ln] @ ds \<and>
            list_all is_regex_diagnostic ds \<and> filter is_rebind_diagnostic ds = [])"
    if "symbol_table s x = Some u1" "infer_type (symbol_table s) v' = Inr u2" "u1 \<noteq> u2"
    using differ [OF that]
      walk [of "Name x lx # ts @ [v']" "add_error (rebind_message x u1 u2 ln) s"]
    by (simp add: add_error_def del: visit_exprs.simps)
  have c1: "infer_type st (BinOp l r ln) = Inr ''unknown''"
    if "infer_type st l = Inr ''unknown''" "infer_type st r = Inr ''unknown''"
    using that by simp
  have c2: "infer_type st (BinOp l' r' ln) = Inl (mismatch_message ln)"
    if "infer_type st l' = Inr t1" "infer_type st r' = Inr t2" "t1 \<noteq> t2"
    using that by simp
  from c1 c2 c3 c4 show ?thesis by blast
qed

text \<open>
  Claim C3 as amended, at \<^verbatim>\<open>None + None\<close>, at \<^verbatim>\<open>1 + None\<close>, and with \<open>x\<close> bound to
  \<^verbatim>\<open>unknown\<close> at \<^verbatim>\<open>x = re.match("p")\<close>, whose value is inferred as \<^verbatim>\<open>unknown\<close> and
  whose walk appends the arity diagnostic, and at \<^verbatim>\<open>x = 1\<close>.
\<close>

theorem unknown_is_compared_like_any_type_witness:
  "infer_type (symbol_table fresh_state) (Constant CNone) = Inr ''unknown'' \<and>
   infer_type (symbol_table fresh_state) (Constant (CInt 1)) = Inr ''int'' \<and>
   ''int'' \<noteq> ''unknown'' \<and>
   infer_type (symbol_table fresh_state) (BinOp (Constant CNone) (Constant CNone) 1)
     = Inr ''unknown'' \<and>
   infer_type (symbol_table fresh_state) (BinOp (Constant (CInt 1)) (Constant CNone) 1)
     = Inl (mismatch_message 1) \<and>
   symbol_table (fresh_state\<lparr>symbol_table := [''x'' \<mapsto> ''unknown'']\<rparr>) ''x''
     = Some ''unknown'' \<and>
   infer_type (symbol_table (fresh_state\<lparr>symbol_table := [''x'' \<mapsto> ''unknown'']\<rparr>))
     (Call (Attribute (Name ''re'' 2) ''match'') [Constant (CStr ''p'')] [] 2)
     = Inr ''unknown'' \<and>
   visit_stmt (Assign (Name ''x'' 2) []
         (Call (Attribute (Name ''re'' 2) ''match'') [Constant (CStr ''p'')] [] 2) 2)
       (fresh_state\<lparr>symbol_table := [''x'' \<mapsto> ''unknown'']\<rparr>)
     = (Normal, fresh_state\<lparr>symbol_table := [''x'' \<mapsto> ''unknown''],
          errors := [arity_message ''match'' 2]\<rparr>) \<and>
   is_regex_diagnostic (arity_message ''match'' 2) \<and>
   visit_stmt (Assign (Name ''x'' 2) [] (Constant (CInt 1)) 2)
       (fresh_state\<lparr>symbol_table := [''x'' \<mapsto> ''unknown'']\<rparr>)
     = (Normal, add_error (rebind_message ''x'' ''unknown'' ''int'' 2)
         (fresh_state\<lparr>symbol_table := [''x'' \<mapsto> ''unknown'']\<rparr>))"
  using unknown_is_compared_like_any_type
    [where st = "symbol_table fresh_state" and l = "Constant CNone" and r = "Constant CNone"
      and l' = "Constant (CInt 1)" and ?t1.0 = "''int''" and r' = "Constant CNone"
      and ?t2.0 = "''unknown''" and ln = 1
      and s = "fresh_state\<lparr>symbol_table := [''x'' \<mapsto> ''unknown'']\<rparr>" and x = "''x''"
      and v = "Constant CNone" and lx = 2 and ts = "[]" and ?u1.0 = "''unknown''"
      and v' = "Constant (CInt 1)" and ?u2.0 = "''int''"]
    unknown_is_compared_like_any_type
    [where st = "symbol_table fresh_state" and l = "Constant CNone" and r = "Constant CNone"
      and l' = "Constant (CInt 1)" and ?t1.0 = "''int''" and r' = "Constant CNone"
      and ?t2.0 = "''unknown''" and ln = 2
      and s = "fresh_state\<lparr>symbol_table := [''x'' \<mapsto> ''unknown'']\<rparr>" and x = "''x''"
      and v = "Call (Attribute (Name ''re'' 2) ''match'') [Constant (CStr ''p'')] [] 2"
      and lx = 2 and ts = "[]" and ?u1.0 = "''unknown''"
      and v' = "Constant (CInt 1)" and ?u2.0 = "''int''"]
  by (simp add: SUPPORTED_TYPES_def REGEX_FUNCTIONS_def fresh_state_def regex_check_def
      add_error_def regex_messages)

text \<open>
  Claim C3 as stated fails: \<^verbatim>\<open>None\<close> is inferred as \<^verbatim>\<open>unknown\<close>, and still
  \<^verbatim>\<open>1 + None\<close> fails with a type mismatch, and \<^verbatim>\<open>x = 1\<close> after \<^verbatim>\<open>x = None\<close> gets
  the re-binding diagnostic.
\<close>

theorem unknown_operand_counterexample:
  "infer_type (symbol_table fresh_state) (Constant CNone) = Inr ''unknown'' \<and>
   infer_type (symbol_table fresh_state) (BinOp (Constant (CInt 1)) (Constant CNone) 1)
     = Inl ''Type Mismatch at line 1'' \<and>
   visit_Module [Assign (Name ''x'' 1) [] (Constant CNone) 1,
       Assign (Name ''x'' 2) [] (Constant (CInt 1)) 2]
     = (Normal, fresh_state\<lparr>symbol_table := [''x'' \<mapsto> ''unknown''],
          errors := [''Type Error: Variable 'x' was 'unknown', now 'int' at line 2'']\<rparr>)"
  by (simp add: run_defs message_defs str_nat_1 str_nat_2)

section \<open>Calls of the regex functions\<close>

text \<open>
  Claim C7 (not met by the code). In \<^verbatim>\<open>visit_Call\<close> both types are inferred before
  anything is appended, and outside any handler. In \<^verbatim>\<open>re.match(1, x)\<close> with \<open>x\<close>
  unbound the pattern is inferred as \<^verbatim>\<open>int\<close>, which is not \<^verbatim>\<open>str\<close>; the inference of
  the second argument raises, so no diagnostic is appended for the pattern and the
  exception leaves the visit and the run.
\<close>

theorem regex_argument_failure_raises:
  "infer_type (symbol_table fresh_state) (Constant (CInt 1)) = Inr ''int'' \<and>
   visit_expr (Call (Attribute (Name ''re'' 1) ''match'')
       [Constant (CInt 1), Name ''x'' 1] [] 1) fresh_state
     = (Raise ''Undefined variable 'x' at line 1'', fresh_state) \<and>
   errors fresh_state = [] \<and>
   fst (run_python_checker
      (accepting [Expr (Call (Attribute (Name ''re'' 1) ''match'')
         [Constant (CInt 1), Name ''x'' 1] [] 1)]) code previous_table)
     = Raised ''Undefined variable 'x' at line 1''"
  by (simp add: run_defs message_defs str_nat_1)

text \<open>
  What the check of \<^verbatim>\<open>visit_Call\<close> appends where it does not raise. At a call
  \<^verbatim>\<open>re.f(...)\<close> with \<open>f\<close> one of \<^verbatim>\<open>match\<close>, \<^verbatim>\<open>search\<close>, \<^verbatim>\<open>fullmatch\<close>,
  \<^verbatim>\<open>findall\<close>, \<^verbatim>\<open>finditer\<close>, before the sub-expressions of the call are walked:
  with fewer than two positional arguments, the one arity diagnostic with \<open>f\<close> and the
  line; with two or more, whose first two have the inferred types \<open>pattern_type\<close> and
  \<open>string_type\<close>, the pattern diagnostic if \<open>pattern_type\<close> is not \<^verbatim>\<open>str\<close> and then
  the subject diagnostic if \<open>string_type\<close> is not \<^verbatim>\<open>str\<close>. So the visit of
  \<^verbatim>\<open>re.f(123, "text")\<close> appends the pattern diagnostic and nothing else, and that of
  \<^verbatim>\<open>re.f("p")\<close> the arity diagnostic and nothing else.
\<close>

lemma regex_call_diagnostics:
  assumes "attr \<in> REGEX_FUNCTIONS" and "f = Attribute (Name ''re'' lr) attr"
  shows "(length args < 2 \<longrightarrow>
            visit_expr (Call f args kws ln) s
              = visit_exprs (f # args @ kws) (add_error (arity_message attr ln) s)) \<and>
         (2 \<le> length args' \<and>
          infer_type (symbol_table s) (args' ! 0) = Inr pattern_type \<and>
          infer_type (symbol_table s) (args' ! 1) = Inr string_type \<longrightarrow>
            visit_expr (Call f args' kws ln) s
              = visit_exprs (f # args' @ kws)
                  (s\<lparr>errors := errors s
                     @ (if pattern_type \<noteq> ''str'' then [pattern_message ln] else [])
                     @ (if string_type \<noteq> ''str'' then [subject_message ln] else [])\<rparr>)) \<and>
         visit_expr (Call f [Constant (CInt n), Constant (CStr t)] [] ln) s
           = (Normal, add_error (pattern_message ln) s) \<and>
         visit_expr (Call f [Constant (CStr p)] [] ln) s
           = (Normal, add_error (arity_message attr ln) s)"
proof -
  have few: "regex_check f args ln s = (Normal, add_error (arity_message attr ln) s)"
    if "length args < 2" for args
    using assms that by (simp add: regex_check_def)
  have more: "regex_check f args' ln s
      = (Normal, s\<lparr>errors := errors s
           @ (if pattern_type \<noteq> ''str'' then [pattern_message ln] else [])
           @ (if string_type \<noteq> ''str'' then [subject_message ln] else [])\<rparr>)"
    if "2 \<le> length args'"
      and "infer_type (symbol_table s) (args' ! 0) = Inr pattern_type"
      and "infer_type (symbol_table s) (args' ! 1) = Inr string_type"
    using assms that by (simp add: regex_check_def add_error_def)
  have two: "visit_expr (Call f [Constant (CInt n), Constant (CStr t)] [] ln) s
      = (Normal, add_error (pattern_message ln) s)"
    using assms by (simp add: regex_check_def add_error_def SUPPORTED_TYPES_def)
  have one: "visit_expr (Call f [Constant (CStr p)] [] ln) s
      = (Normal, add_error (arity_message attr ln) s)"
    using assms by (simp add: regex_check_def add_error_def)
  from few [of args] more two one show ?thesis
    by (simp del: visit_exprs.simps)
qed

text \<open>The same at \<^verbatim>\<open>re.match(123, "text")\<close> and \<^verbatim>\<open>re.match("p")\<close> on line 1.\<close>

lemma regex_call_diagnostics_example:
  "''match'' \<in> REGEX_FUNCTIONS \<and>
   length [Constant (CStr ''p'')] < 2 \<and>
   2 \<le> length [Constant (CInt 123), Constant (CStr ''text'')] \<and>
   infer_type (symbol_table fresh_state)
     ([Constant (CInt 123), Constant (CStr ''text'')] ! 0) = Inr ''int'' \<and>
   infer_type (symbol_table fresh_state)
     ([Constant (CInt 123), Constant (CStr ''text'')] ! 1) = Inr ''str'' \<and>
   visit_expr (Call (Attribute (Name ''re'' 1) ''match'')
       [Constant (CInt 123), Constant (CStr ''text'')] [] 1) fresh_state
     = (Normal, fresh_state\<lparr>errors :=
         [''Type Error: regex pattern argument must be 'str' at line 1'']\<rparr>) \<and>
   visit_expr (Call (Attribute (Name ''re'' 1) ''match'') [Constant (CStr ''p'')] [] 1)
       fresh_state
     = (Normal, fresh_state\<lparr>errors :=
         [''Type Error: regex function 'match' expects at least 2 arguments at line 1'']\<rparr>)"
proof -
  have h: "''match'' \<in> REGEX_FUNCTIONS" by (simp add: REGEX_FUNCTIONS_def)
  have t: "infer_type (symbol_table fresh_state)
       ([Constant (CInt 123), Constant (CStr ''text'')] ! 0) = Inr ''int''"
    "infer_type (symbol_table fresh_state)
       ([Constant (CInt 123), Constant (CStr ''text'')] ! 1) = Inr ''str''"
    by (simp_all add: SUPPORTED_TYPES_def)
  from regex_call_diagnostics [OF h refl,
      where lr = 1 and args = "[Constant (CStr ''p'')]"
        and args' = "[Constant (CInt 123), Constant (CStr ''text'')]"
        and kws = "[]" and ln = 1 and s = fresh_state
        and pattern_type = "''int''" and string_type = "''str''"
        and n = 123 and t = "''text''" and p = "''p''"] h t
  show ?thesis
    by (simp add: add_error_def fresh_state_def message_defs str_nat_1)
qed

end
